theory Spec2Isabelle
  imports Complex_Main "HOL-Library.Word" "HOL-Library.Stream"
begin

section \<open>Numbers, vectors and failures\<close>

text \<open>
  PapillonNDL computes in C++ \<open>double\<close>. The embedding reads a \<open>double\<close> as a
  \<open>real\<close>: comparisons, sums, products and quotients are the exact ones, so rounding,
  infinities and NaN are outside the model. A \<open>std::vector\<close> is a list. Reading a vector
  outside its bounds, stepping an iterator before \<open>begin()\<close> and converting a negative
  \<open>double\<close> to an unsigned integer have no defined result in C++; the embedding gives
  each of them an explicit failure value, so that a function which can reach one returns
  \<open>error + 'a\<close>.
\<close>

datatype error = IndexOutOfRange | BadCast

text \<open>\<open>v[i]\<close> of a \<open>std::vector\<close>.\<close>

definition vec_at :: "'a list \<Rightarrow> nat \<Rightarrow> error + 'a" where
  "vec_at v i = (if i < length v then Inr (v ! i) else Inl IndexOutOfRange)"

text \<open>\<open>v.back()\<close> of a \<open>std::vector\<close>.\<close>

definition vec_back :: "'a list \<Rightarrow> error + 'a" where
  "vec_back v = (if length v = 0 then Inl IndexOutOfRange else Inr (last v))"

text \<open>
  \<open>std::lower_bound(v.begin(), v.end(), val)\<close>, as the distance of the returned iterator
  from \<open>v.begin()\<close>. The loop is the halving search of the standard library: \<open>first\<close>
  is the start of the remaining range and \<open>len\<close> its length; the middle element is
  compared with \<open>val\<close> by \<open><\<close>. Every index read lies inside the range
  \<open>first ..< first + len\<close>.
\<close>

function lower_bound_loop :: "real list \<Rightarrow> real \<Rightarrow> nat \<Rightarrow> nat \<Rightarrow> nat" where
  "lower_bound_loop v val first len =
     (if 0 < len then
        (let half = len div 2; middle = first + half
         in if v ! middle < val
            then lower_bound_loop v val (middle + 1) (len - half - 1)
            else lower_bound_loop v val first half)
      else first)"
  by pat_completeness auto
termination
  by (relation "measure (\<lambda>(v, val, first, len). len)") auto

declare lower_bound_loop.simps [simp del]

definition lower_bound :: "real list \<Rightarrow> real \<Rightarrow> nat" where
  "lower_bound v val = lower_bound_loop v val 0 (length v)"

section \<open>STCoherentElastic\<close>

text \<open>
  The two private vectors of the class, \<open>bragg_edges_\<close> and \<open>structure_factor_sum_\<close>,
  under the names of their accessors.
\<close>

record STCoherentElastic =
  bragg_edges :: "real list"
  structure_factor_sum :: "real list"

text \<open>
  The value returned by \<open>sample_angle_energy\<close>: the brace initialiser \<open>{mu, E_in}\<close>
  fills the scattering cosine first and the outgoing energy second.
\<close>

record AngleEnergyPacket =
  cosine_angle :: real
  energy :: real

text \<open>
  \<open>STCoherentElastic::xs\<close>. In the bracketing branch \<open>l\<close> is the distance of the
  iterator minus one in \<open>size_t\<close>; for distance 0 it wraps around to the largest
  \<open>size_t\<close>, which is no index of any vector.
\<close>

definition STCoherentElastic_xs :: "STCoherentElastic \<Rightarrow> real \<Rightarrow> error + real" where
  "STCoherentElastic_xs s E =
     (if length (bragg_edges s) = 0 then Inr 0
      else if E > hd (bragg_edges s) \<and> E < last (bragg_edges s) then
        (let Eit = lower_bound (bragg_edges s) E
         in if Eit = 0 then Inl IndexOutOfRange
            else (case vec_at (structure_factor_sum s) (Eit - 1) of
                    Inl e \<Rightarrow> Inl e
                  | Inr f \<Rightarrow> Inr (f / E)))
      else if E < hd (bragg_edges s) then Inr 0
      else (case vec_back (structure_factor_sum s) of
              Inl e \<Rightarrow> Inl e
            | Inr f \<Rightarrow> Inr (f / E)))"

text \<open>
  \<open>STCoherentElastic::sample_angle_energy\<close>. The random number source is a stream of
  variates; the function never calls it, so the stream comes back as it went in.
  \<open>Eit--\<close> on the iterator \<open>begin()\<close> is the failure \<open>IndexOutOfRange\<close>.
\<close>

definition STCoherentElastic_sample_angle_energy ::
    "STCoherentElastic \<Rightarrow> real \<Rightarrow> real stream \<Rightarrow> (error + AngleEnergyPacket) \<times> real stream" where
  "STCoherentElastic_sample_angle_energy s E_in rng =
     (if length (bragg_edges s) = 0 then (Inr \<lparr>cosine_angle = 1, energy = 0\<rparr>, rng)
      else
        (case (if E_in > hd (bragg_edges s) \<and> E_in < last (bragg_edges s) then
                 (let Eit = lower_bound (bragg_edges s) E_in
                  in if Eit = 0 then Inl IndexOutOfRange
                     else vec_at (bragg_edges s) (Eit - 1))
               else if E_in < hd (bragg_edges s) then Inr 0
               else Inr (last (bragg_edges s))) of
           Inl e \<Rightarrow> (Inl e, rng)
         | Inr Ei \<Rightarrow>
             (Inr \<lparr>cosine_angle = 1 - (2 * Ei / E_in), energy = E_in\<rparr>, rng)))"

text \<open>\<open>STCoherentElastic::angle_pdf\<close> and \<open>STCoherentElastic::pdf\<close>: \<open>std::nullopt\<close>.\<close>

definition STCoherentElastic_angle_pdf :: "STCoherentElastic \<Rightarrow> real \<Rightarrow> real \<Rightarrow> real option" where
  "STCoherentElastic_angle_pdf s E_in mu = None"

definition STCoherentElastic_pdf ::
    "STCoherentElastic \<Rightarrow> real \<Rightarrow> real \<Rightarrow> real \<Rightarrow> real option" where
  "STCoherentElastic_pdf s E_in mu E_out = None"

section \<open>GeneralEvaporation\<close>

text \<open>
  Sequencing of steps that can fail: the first failure is the result, as the rest of the
  C++ function is not reached.
\<close>

definition bind_err :: "error + 'a \<Rightarrow> ('a \<Rightarrow> error + 'b) \<Rightarrow> error + 'b" where
  "bind_err r f = (case r of Inl e \<Rightarrow> Inl e | Inr a \<Rightarrow> f a)"

fun sequence_err :: "(error + 'a) list \<Rightarrow> error + 'a list" where
  "sequence_err [] = Inr []"
| "sequence_err (r # rs) =
     bind_err r (\<lambda>a. bind_err (sequence_err rs) (\<lambda>as. Inr (a # as)))"

text \<open>
  Modelled from the spec: the class \<open>ACE\<close> (\<open>ace.hpp\<close>) is the external format reader
  and is not among the sources. The spec gives its interface: a flat indexable numeric
  array with a typed scalar read at an offset (unsigned integer, enumerated interpolation
  code) and a typed contiguous-range read at an offset and length. The array is a list of
  reals, an offset is a \<open>size_t\<close> (64 bits), a count is a \<open>uint32_t\<close>. A read outside
  the array fails. The conversion of a \<open>double\<close> to \<open>uint32_t\<close> drops the fraction and is
  defined when the result fits.
\<close>

type_synonym ACE = "real list"

definition to_uint32 :: "real \<Rightarrow> error + 32 word" where
  "to_uint32 x = (if - 1 < x \<and> x < 2 ^ 32 then Inr (word_of_nat (nat \<lfloor>x\<rfloor>)) else Inl BadCast)"

definition xss_uint32 :: "ACE \<Rightarrow> 64 word \<Rightarrow> error + 32 word" where
  "xss_uint32 ace i = bind_err (vec_at ace (unat i)) to_uint32"

definition xss :: "ACE \<Rightarrow> 64 word \<Rightarrow> 32 word \<Rightarrow> error + real list" where
  "xss ace i len =
     (if unat i + unat len \<le> length ace
      then Inr (take (unat len) (drop (unat i) ace))
      else Inl IndexOutOfRange)"

definition xss_uint32_range :: "ACE \<Rightarrow> 64 word \<Rightarrow> 32 word \<Rightarrow> error + 32 word list" where
  "xss_uint32_range ace i len =
     bind_err (xss ace i len) (\<lambda>ds. sequence_err (map to_uint32 ds))"

text \<open>
  Modelled from the spec: the interpolation rules (\<open>interpolation.hpp\<close> is not among the
  sources) are the five families the spec names. The numeric code of each rule in the
  array is not given, so the decoding of a stored code is a parameter \<open>interp_of\<close> of the
  constructor.
\<close>

datatype Interpolation = Histogram | LinLin | LinLog | LogLin | LogLog

definition xss_Interpolation_range ::
    "(real \<Rightarrow> Interpolation) \<Rightarrow> ACE \<Rightarrow> 64 word \<Rightarrow> 32 word \<Rightarrow> error + Interpolation list" where
  "xss_Interpolation_range interp_of ace i len =
     bind_err (xss ace i len) (\<lambda>ds. Inr (map interp_of ds))"

text \<open>
  Modelled from the spec: \<open>Region1D\<close> and \<open>MultiRegion1D\<close> (\<open>region_1d.hpp\<close>,
  \<open>multi_region_1d.hpp\<close>) are not among the sources. A tabulated function is kept as the
  arguments its constructor was called with; its evaluation \<open>operator()\<close> is a parameter
  \<open>ev\<close> of the sampling function.
\<close>

datatype Tabulated1D =
    Region1D "real list" "real list" Interpolation
  | MultiRegion1D "32 word list" "Interpolation list" "real list" "real list"

text \<open>The members \<open>temperature_\<close> and \<open>bin_bounds_\<close>, under the names of their accessors.\<close>

record GeneralEvaporation =
  temperature :: Tabulated1D
  bin_bounds :: "real list"

text \<open>
  \<open>GeneralEvaporation::GeneralEvaporation(const ACE& ace, size_t i)\<close>. The products
  \<open>2 * NR\<close> and \<open>2 * NE\<close> are computed in \<open>uint32_t\<close> and then widened to \<open>size_t\<close>
  for the sum with \<open>i\<close>. The local vector \<open>INT\<close> is written \<open>INT'\<close>; \<open>INT[0]\<close> is read
  only when \<open>NBT\<close> has one element.
\<close>

definition GeneralEvaporation_init ::
    "(real \<Rightarrow> Interpolation) \<Rightarrow> ACE \<Rightarrow> 64 word \<Rightarrow> error + GeneralEvaporation" where
  "GeneralEvaporation_init interp_of ace i =
     bind_err (xss_uint32 ace i) (\<lambda>NR.
     bind_err (xss_uint32 ace (i + 1 + ucast (2 * NR))) (\<lambda>NE.
     bind_err (if NR = 0 then Inr ([NE], [LinLin])
               else bind_err (xss_uint32_range ace (i + 1) NR) (\<lambda>NBT.
                    bind_err (xss_Interpolation_range interp_of ace (i + 1 + ucast NR) NR) (\<lambda>INT'.
                    Inr (NBT, INT')))) (\<lambda>(NBT, INT').
     bind_err (xss ace (i + 2 + ucast (2 * NR)) NE) (\<lambda>energy_grid.
     bind_err (xss ace (i + 2 + ucast (2 * NR) + ucast NE) NE) (\<lambda>temperature_grid.
     bind_err (xss_uint32 ace (i + 2 + ucast (2 * NR) + ucast (2 * NE))) (\<lambda>NX.
     bind_err (xss ace (i + 2 + ucast (2 * NR) + ucast (2 * NE)) NX) (\<lambda>bins.
     bind_err (if length NBT = 1
               then bind_err (vec_at INT' 0) (\<lambda>rule.
                    Inr (Region1D energy_grid temperature_grid rule))
               else Inr (MultiRegion1D NBT INT' energy_grid temperature_grid)) (\<lambda>t.
     Inr \<lparr>temperature = t, bin_bounds = bins\<rparr>))))))))"

text \<open>
  \<open>GeneralEvaporation::sample_energy\<close>, with two of its locals as functions of their
  own. \<open>bin\<close> is \<open>static_cast<size_t>(std::floor(bin_bounds_.size() * xi1))\<close>; the
  conversion of a negative \<open>double\<close> to \<open>size_t\<close> is the failure \<open>BadCast\<close>.
  The product under the floor is the exact one here, where the code floors the product
  rounded to \<open>double\<close>: the two floors can differ when the exact product lies just
  below an integer. The selected bin is therefore stated only at given variates, where
  the rounded and the exact product have the same floor; for the binary fractions 1/2
  and 1/4 the product is exact in \<open>double\<close> as well.
\<close>

definition GeneralEvaporation_bin :: "real list \<Rightarrow> real \<Rightarrow> error + nat" where
  "GeneralEvaporation_bin bounds xi1 =
     (if \<lfloor>real (length bounds) * xi1\<rfloor> < 0 then Inl BadCast
      else Inr (nat \<lfloor>real (length bounds) * xi1\<rfloor>))"

text \<open>
  \<open>Chi\<close> is \<open>(bin_bounds_[bin + 1] - bin_bounds_[bin]) * xi2 + bin_bounds_[bin]\<close>.
\<close>

definition GeneralEvaporation_Chi :: "real list \<Rightarrow> nat \<Rightarrow> real \<Rightarrow> error + real" where
  "GeneralEvaporation_Chi bounds bin xi2 =
     bind_err (vec_at bounds (bin + 1)) (\<lambda>upper.
     bind_err (vec_at bounds bin) (\<lambda>lower.
     Inr ((upper - lower) * xi2 + lower)))"

text \<open>
  The body, statement by statement. \<open>rng()\<close> takes the head of the stream of variates
  and leaves its tail; both draws are made before \<open>bin_bounds_\<close> is indexed. The
  difference, the sum and the two products are the exact ones here and are rounded to
  \<open>double\<close> in the code, so the result is the expression the code evaluates, and no
  identity between the results of different calls that rests on the laws of exact
  arithmetic is stated of it.
\<close>

definition GeneralEvaporation_sample_energy ::
    "(Tabulated1D \<Rightarrow> real \<Rightarrow> real) \<Rightarrow> GeneralEvaporation \<Rightarrow> real \<Rightarrow> real stream
       \<Rightarrow> (error + real) \<times> real stream" where
  "GeneralEvaporation_sample_energy ev g E_in rng =
     (let T = ev (temperature g) E_in;
          xi1 = shd rng; rng1 = stl rng;
          bin = GeneralEvaporation_bin (bin_bounds g) xi1;
          xi2 = shd rng1; rng2 = stl rng1;
          Chi = bind_err bin (\<lambda>b. GeneralEvaporation_Chi (bin_bounds g) b xi2)
      in (bind_err Chi (\<lambda>c. Inr (c * T)), rng2))"

section \<open>Facts about the search\<close>

text \<open>The search stays inside the range it was given, whatever the vector holds.\<close>

lemma lower_bound_loop_range:
  "first \<le> lower_bound_loop v val first len \<and> lower_bound_loop v val first len \<le> first + len"
proof (induction v val first len rule: lower_bound_loop.induct)
  case (1 v val first len)
  show ?case
  proof (cases "0 < len")
    case False
    then have "lower_bound_loop v val first len = first"
      by (subst lower_bound_loop.simps) simp
    then show ?thesis by simp
  next
    case len: True
    show ?thesis
    proof (cases "v ! (first + len div 2) < val")
      case True
      with len have eq: "lower_bound_loop v val first len =
          lower_bound_loop v val (first + len div 2 + 1) (len - len div 2 - 1)"
        by (subst lower_bound_loop.simps) (simp add: Let_def)
      from 1(1) [OF len refl refl True] len show ?thesis
        unfolding eq by linarith
    next
      case False
      with len have eq: "lower_bound_loop v val first len =
          lower_bound_loop v val first (len div 2)"
        by (subst lower_bound_loop.simps) (simp add: Let_def)
      from 1(2) [OF len refl refl False] len show ?thesis
        unfolding eq by linarith
    qed
  qed
qed

text \<open>
  When the element at index 0 is below \<open>val\<close>, a search that starts at 0 ends past it:
  either it moves right at once, or it halves the range until index 0 is the middle.
\<close>

lemma lower_bound_loop_pos:
  "0 < len \<Longrightarrow> v ! 0 < val \<Longrightarrow> 0 < lower_bound_loop v val 0 len"
proof (induction len rule: less_induct)
  case (less len)
  show ?case
  proof (cases "v ! (len div 2) < val")
    case True
    with less.prems have eq: "lower_bound_loop v val 0 len =
        lower_bound_loop v val (len div 2 + 1) (len - len div 2 - 1)"
      by (subst lower_bound_loop.simps) (simp add: Let_def)
    have "len div 2 + 1 \<le> lower_bound_loop v val (len div 2 + 1) (len - len div 2 - 1)"
      using lower_bound_loop_range by blast
    then show ?thesis unfolding eq by simp
  next
    case False
    with less.prems have eq: "lower_bound_loop v val 0 len =
        lower_bound_loop v val 0 (len div 2)"
      by (subst lower_bound_loop.simps) (simp add: Let_def)
    from False less.prems have h: "0 < len div 2"
      by (cases "len div 2 = 0") auto
    then have "len div 2 < len" by simp
    from less.IH [OF this h less.prems(2)] show ?thesis
      unfolding eq .
  qed
qed

text \<open>
  On a sorted vector the search splits it: everything before the result is below
  \<open>val\<close>, everything from the result on is not.
\<close>

lemma lower_bound_loop_sorted:
  assumes "sorted v" and "first + len \<le> length v"
    and "\<forall>j<first. v ! j < val"
    and "\<forall>j. first + len \<le> j \<and> j < length v \<longrightarrow> val \<le> v ! j"
  shows "(\<forall>j<lower_bound_loop v val first len. v ! j < val) \<and>
         (\<forall>j. lower_bound_loop v val first len \<le> j \<and> j < length v \<longrightarrow> val \<le> v ! j)"
  using assms
proof (induction v val first len rule: lower_bound_loop.induct)
  case (1 v val first len)
  show ?case
  proof (cases "0 < len")
    case False
    then have "lower_bound_loop v val first len = first"
      by (subst lower_bound_loop.simps) simp
    with False 1(5,6) show ?thesis by simp
  next
    case len: True
    let ?m = "first + len div 2"
    have m: "?m < length v" using len 1(4) by simp
    show ?thesis
    proof (cases "v ! ?m < val")
      case True
      with len have eq: "lower_bound_loop v val first len =
          lower_bound_loop v val (?m + 1) (len - len div 2 - 1)"
        by (subst lower_bound_loop.simps) (simp add: Let_def)
      have lo: "\<forall>j<?m + 1. v ! j < val"
      proof (intro allI impI)
        fix j assume "j < ?m + 1"
        then have "j \<le> ?m" by simp
        with \<open>sorted v\<close> m have "v ! j \<le> v ! ?m" by (simp add: sorted_nth_mono)
        with True show "v ! j < val" by simp
      qed
      have hi: "\<forall>j. ?m + 1 + (len - len div 2 - 1) \<le> j \<and> j < length v \<longrightarrow> val \<le> v ! j"
        using 1(6) len by auto
      have le: "?m + 1 + (len - len div 2 - 1) \<le> length v"
        using 1(4) len by simp
      from 1(1) [OF len refl refl True \<open>sorted v\<close> le lo hi] show ?thesis
        unfolding eq .
    next
      case False
      with len have eq: "lower_bound_loop v val first len =
          lower_bound_loop v val first (len div 2)"
        by (subst lower_bound_loop.simps) (simp add: Let_def)
      have hi: "\<forall>j. ?m \<le> j \<and> j < length v \<longrightarrow> val \<le> v ! j"
      proof (intro allI impI)
        fix j assume "?m \<le> j \<and> j < length v"
        with \<open>sorted v\<close> have "v ! ?m \<le> v ! j" by (simp add: sorted_nth_mono)
        with False show "val \<le> v ! j" by simp
      qed
      have le: "?m \<le> length v" using m by simp
      from 1(2) [OF len refl refl False \<open>sorted v\<close> le 1(5) hi] show ?thesis
        unfolding eq .
    qed
  qed
qed

lemma lower_bound_le_length: "lower_bound v val \<le> length v"
  using lower_bound_loop_range [of 0 v val "length v"] by (simp add: lower_bound_def)

lemma lower_bound_pos: "v \<noteq> [] \<Longrightarrow> hd v < val \<Longrightarrow> 0 < lower_bound v val"
  using lower_bound_loop_pos [of "length v" v val] by (simp add: lower_bound_def hd_conv_nth)

lemma lower_bound_below: "sorted v \<Longrightarrow> j < lower_bound v val \<Longrightarrow> v ! j < val"
  using lower_bound_loop_sorted [of v 0 "length v" val] by (simp add: lower_bound_def)

lemma lower_bound_above:
  "sorted v \<Longrightarrow> lower_bound v val \<le> j \<Longrightarrow> j < length v \<Longrightarrow> val \<le> v ! j"
  using lower_bound_loop_sorted [of v 0 "length v" val] by (simp add: lower_bound_def)

section \<open>Facts about the two classes\<close>

text \<open>
  Between the first and the last edge of a sorted table of the same length as the
  structure factors, \<open>xs\<close> reads the structure factor just before the position
  found by the search, and that position is inside the table.
\<close>

lemma xs_bracket:
  assumes srt: "sorted (bragg_edges s)"
    and len: "length (structure_factor_sum s) = length (bragg_edges s)"
    and ne: "bragg_edges s \<noteq> []"
    and lo: "hd (bragg_edges s) < E" and hi: "E < last (bragg_edges s)"
  shows "0 < lower_bound (bragg_edges s) E"
    and "lower_bound (bragg_edges s) E < length (bragg_edges s)"
    and "STCoherentElastic_xs s E =
           Inr (structure_factor_sum s ! (lower_bound (bragg_edges s) E - 1) / E)"
proof -
  let ?k = "lower_bound (bragg_edges s) E"
  show pos: "0 < ?k" using ne lo by (rule lower_bound_pos)
  have "?k \<noteq> length (bragg_edges s)"
  proof
    assume eq: "?k = length (bragg_edges s)"
    with ne have "length (bragg_edges s) - 1 < ?k" by simp
    with srt have "bragg_edges s ! (length (bragg_edges s) - 1) < E"
      by (rule lower_bound_below)
    with ne hi show False by (simp add: last_conv_nth)
  qed
  with lower_bound_le_length [of "bragg_edges s" E]
  show lt: "?k < length (bragg_edges s)" by simp
  from pos lt len ne lo hi
  show "STCoherentElastic_xs s E = Inr (structure_factor_sum s ! (?k - 1) / E)"
    by (simp add: STCoherentElastic_xs_def vec_at_def Let_def)
qed

text \<open>
  With at least one edge, \<open>sample_angle_energy\<close> never fails and hands back the
  incident energy, sorted table or not.
\<close>

lemma sample_angle_energy_nonempty:
  assumes ne: "bragg_edges s \<noteq> []"
  shows "\<exists>mu. STCoherentElastic_sample_angle_energy s E_in rng =
           (Inr \<lparr>cosine_angle = mu, energy = E_in\<rparr>, rng)"
proof (cases "hd (bragg_edges s) < E_in \<and> E_in < last (bragg_edges s)")
  case True
  let ?k = "lower_bound (bragg_edges s) E_in"
  from ne True have pos: "0 < ?k" by (intro lower_bound_pos) simp_all
  with lower_bound_le_length [of "bragg_edges s" E_in] have "?k - 1 < length (bragg_edges s)"
    by simp
  with pos ne True show ?thesis
    by (simp add: STCoherentElastic_sample_angle_energy_def vec_at_def Let_def)
next
  case False
  with ne show ?thesis
    by (cases "E_in < hd (bragg_edges s)")
       (auto simp add: STCoherentElastic_sample_angle_energy_def)
qed

text \<open>The body of \<open>sample_energy\<close> with its locals substituted.\<close>

lemma sample_energy_unfold:
  "GeneralEvaporation_sample_energy ev g E_in rng =
     (bind_err (bind_err (GeneralEvaporation_bin (bin_bounds g) (shd rng))
                 (\<lambda>b. GeneralEvaporation_Chi (bin_bounds g) b (shd (stl rng))))
        (\<lambda>c. Inr (c * ev (temperature g) E_in)), stl (stl rng))"
  by (simp add: GeneralEvaporation_sample_energy_def Let_def)

text \<open>
  For a sorted table of positive edges and a positive incident energy, the sampled cosine
  lies in \<open>[-1, 1]\<close>, unless the incident energy is the first edge of a table with more
  than one edge.
\<close>

lemma sample_angle_energy_cosine_range:
  assumes srt: "sorted (bragg_edges s)"
    and ne: "bragg_edges s \<noteq> []"
    and pos: "0 < hd (bragg_edges s)"
    and E: "0 < E_in"
    and off: "E_in \<noteq> hd (bragg_edges s) \<or> length (bragg_edges s) = 1"
  shows "\<exists>mu. STCoherentElastic_sample_angle_energy s E_in rng =
              (Inr \<lparr>cosine_angle = mu, energy = E_in\<rparr>, rng) \<and> - 1 \<le> mu \<and> mu \<le> 1"
proof -
  let ?es = "bragg_edges s"
  have hd_le: "hd ?es \<le> ?es ! j" if "j < length ?es" for j
    using srt ne that sorted_nth_mono [of ?es 0 j] by (simp add: hd_conv_nth)
  have range: "- 1 \<le> 1 - (2 * Ei / E_in) \<and> 1 - (2 * Ei / E_in) \<le> 1"
    if "0 \<le> Ei" "Ei \<le> E_in" for Ei
  proof -
    from that E have "0 \<le> Ei / E_in" "Ei / E_in \<le> 1" by simp_all
    then show ?thesis by simp
  qed
  consider (inside) "hd ?es < E_in \<and> E_in < last ?es"
    | (below) "E_in < hd ?es"
    | (above) "\<not> (hd ?es < E_in \<and> E_in < last ?es)" "\<not> E_in < hd ?es"
    by blast
  then show ?thesis
  proof cases
    case inside
    let ?k = "lower_bound ?es E_in"
    from ne inside have k: "0 < ?k" by (intro lower_bound_pos) simp_all
    with lower_bound_le_length [of ?es E_in] have lt: "?k - 1 < length ?es" by simp
    from srt k have "?es ! (?k - 1) < E_in" by (intro lower_bound_below) simp_all
    moreover from hd_le [OF lt] pos have "0 \<le> ?es ! (?k - 1)" by simp
    ultimately have "- 1 \<le> 1 - (2 * ?es ! (?k - 1) / E_in) \<and> 1 - (2 * ?es ! (?k - 1) / E_in) \<le> 1"
      by (intro range) simp_all
    with inside ne k lt show ?thesis
      by (simp add: STCoherentElastic_sample_angle_energy_def vec_at_def Let_def)
  next
    case below
    with ne show ?thesis
      by (simp add: STCoherentElastic_sample_angle_energy_def)
  next
    case above
    have last_eq: "last ?es = ?es ! (length ?es - 1)" using ne by (rule last_conv_nth)
    have "last ?es \<le> E_in"
    proof (cases "length ?es = 1")
      case True
      with ne have "last ?es = hd ?es" by (simp add: last_eq hd_conv_nth)
      with above show ?thesis by simp
    next
      case False
      with off have "E_in \<noteq> hd ?es" by simp
      with above show ?thesis by simp
    qed
    moreover from ne pos have "0 \<le> last ?es"
      using hd_le [of "length ?es - 1"] by (simp add: last_eq)
    ultimately have "- 1 \<le> 1 - (2 * last ?es / E_in) \<and> 1 - (2 * last ?es / E_in) \<le> 1"
      by (intro range)
    with above ne show ?thesis
      by (auto simp add: STCoherentElastic_sample_angle_energy_def)
  qed
qed

text \<open>
  At the variates 1/2 and 1/4 the selected bin is the number of bounds divided by 2 and
  by 4, rounded down.
\<close>

lemma bin_at_half: "GeneralEvaporation_bin bounds (1 / 2) = Inr (length bounds div 2)"
proof -
  have "\<lfloor>real (length bounds) / real 2\<rfloor> = int (length bounds div 2)"
    by (rule floor_divide_of_nat_eq)
  then show ?thesis by (simp add: GeneralEvaporation_bin_def)
qed

lemma bin_at_quarter: "GeneralEvaporation_bin bounds (1 / 4) = Inr (length bounds div 4)"
proof -
  have "\<lfloor>real (length bounds) / real 4\<rfloor> = int (length bounds div 4)"
    by (rule floor_divide_of_nat_eq)
  then show ?thesis by (simp add: GeneralEvaporation_bin_def)
qed

text \<open>\<open>Chi\<close> with its two reads of \<open>bin_bounds_\<close> written out.\<close>

lemma Chi_explicit:
  "GeneralEvaporation_Chi bounds b xi2 =
     (if b + 1 < length bounds
      then Inr ((bounds ! (b + 1) - bounds ! b) * xi2 + bounds ! b)
      else Inl IndexOutOfRange)"
  by (simp add: GeneralEvaporation_Chi_def bind_err_def vec_at_def)

section \<open>The claims\<close>

subsection \<open>C1: the cross section below the first Bragg edge\<close>

text \<open>
  Strictly below the first edge of a table with at least one edge, \<open>xs\<close> returns 0.
\<close>

lemma xs_zero_below_first_edge:
  "bragg_edges s \<noteq> [] \<Longrightarrow> E < hd (bragg_edges s) \<Longrightarrow> STCoherentElastic_xs s E = Inr 0"
  by (simp add: STCoherentElastic_xs_def)

text \<open>
  C1 at a failing input. C1 asks for \<open>xs(E) = 0\<close> for every \<open>E\<close> up to and including
  the first Bragg edge. With the edges 1, 2, 3, the structure factors 10, 20, 30 and
  \<open>E = 1\<close>, the first edge, \<open>E\<close> is neither strictly inside the table nor strictly
  below the first edge, so the branch for energies at or above the last edge answers
  \<open>structure_factor_sum_.back() / E = 30\<close>.
\<close>

theorem xs_at_first_edge:
  "STCoherentElastic_xs \<lparr>bragg_edges = [1, 2, 3], structure_factor_sum = [10, 20, 30]\<rparr> 1 = Inr 30"
  by (simp add: STCoherentElastic_xs_def vec_back_def)

subsection \<open>C2: the range of the sampled cosine\<close>

text \<open>
  C2 at a failing input. C2 asks for a cosine in \<open>[-1, 1]\<close> for every \<open>E_in > 0\<close>. With
  the edges 1, 2, 3 and \<open>E_in = 1\<close>, the first edge, the incident energy is neither
  strictly inside the table nor below the first edge, so \<open>Ei\<close> is the last edge 3 and
  the cosine is \<open>1 - 6/1 = -5\<close>.
\<close>

theorem sample_angle_energy_at_first_edge:
  "STCoherentElastic_sample_angle_energy \<lparr>bragg_edges = [1, 2, 3], structure_factor_sum = [10, 20, 30]\<rparr> 1 rng
     = (Inr \<lparr>cosine_angle = - 5, energy = 1\<rparr>, rng)"
  by (simp add: STCoherentElastic_sample_angle_energy_def)

subsection \<open>C3: the cross section between the first and the last edge\<close>

text \<open>
  C3, as amended. For every STCoherentElastic whose \<open>bragg_edges\<close> is strictly
  increasing and as long as \<open>structure_factor_sum\<close>, and every \<open>E\<close> strictly between
  the first and the last edge, \<open>xs(E)\<close> is \<open>structure_factor_sum[l] / E\<close> where \<open>l\<close> is
  the index of the greatest edge strictly less than \<open>E\<close> (so the next edge is at least
  \<open>E\<close>). In particular, at an interior edge \<open>bragg_edges[i]\<close> the cross section uses
  \<open>structure_factor_sum[i - 1]\<close>.
\<close>

theorem xs_between_edges:
  assumes strict: "sorted_wrt (<) (bragg_edges s)"
    and len: "length (structure_factor_sum s) = length (bragg_edges s)"
    and ne: "bragg_edges s \<noteq> []"
  shows "(hd (bragg_edges s) < E \<and> E < last (bragg_edges s) \<longrightarrow>
            (\<exists>l. l + 1 < length (bragg_edges s)
                 \<and> bragg_edges s ! l < E \<and> E \<le> bragg_edges s ! (l + 1)
                 \<and> (\<forall>j < length (bragg_edges s). bragg_edges s ! j < E \<longrightarrow> j \<le> l)
                 \<and> STCoherentElastic_xs s E = Inr (structure_factor_sum s ! l / E)))
         \<and> (0 < i \<and> i + 1 < length (bragg_edges s) \<longrightarrow>
              STCoherentElastic_xs s (bragg_edges s ! i) =
                Inr (structure_factor_sum s ! (i - 1) / bragg_edges s ! i))"
proof -
  let ?es = "bragg_edges s"
  from strict have srt: "sorted ?es" by (rule strict_sorted_imp_sorted)
  have part1: "\<exists>l. l + 1 < length ?es \<and> ?es ! l < E' \<and> E' \<le> ?es ! (l + 1)
                 \<and> (\<forall>j < length ?es. ?es ! j < E' \<longrightarrow> j \<le> l)
                 \<and> STCoherentElastic_xs s E' = Inr (structure_factor_sum s ! l / E')"
    if lo: "hd ?es < E'" and hi: "E' < last ?es" for E'
  proof -
    let ?k = "lower_bound ?es E'"
    note b = xs_bracket [OF srt len ne lo hi]
    have 1: "?k - 1 + 1 < length ?es" using b(1,2) by simp
    have 2: "?es ! (?k - 1) < E'" using srt b(1) by (intro lower_bound_below) simp_all
    have 3: "E' \<le> ?es ! (?k - 1 + 1)"
      using srt b(1,2) lower_bound_above [of ?es E' ?k] by simp
    have 4: "\<forall>j < length ?es. ?es ! j < E' \<longrightarrow> j \<le> ?k - 1"
    proof (intro allI impI)
      fix j assume j: "j < length ?es" and below: "?es ! j < E'"
      have "\<not> ?k \<le> j"
      proof
        assume "?k \<le> j"
        with srt j have "E' \<le> ?es ! j" by (intro lower_bound_above)
        with below show False by simp
      qed
      then show "j \<le> ?k - 1" by simp
    qed
    from 1 2 3 4 b(3) show ?thesis by blast
  qed
  have part2: "STCoherentElastic_xs s (?es ! i) = Inr (structure_factor_sum s ! (i - 1) / ?es ! i)"
    if i: "0 < i" "i + 1 < length ?es"
  proof -
    from strict i have lo: "hd ?es < ?es ! i"
      using sorted_wrt_nth_less [of "(<)" ?es 0 i] ne by (simp add: hd_conv_nth)
    from strict i have hi: "?es ! i < last ?es"
      using sorted_wrt_nth_less [of "(<)" ?es i "length ?es - 1"] ne
      by (simp add: last_conv_nth)
    from part1 [OF lo hi] obtain l where l: "l + 1 < length ?es" "?es ! l < ?es ! i"
        "?es ! i \<le> ?es ! (l + 1)"
        "STCoherentElastic_xs s (?es ! i) = Inr (structure_factor_sum s ! l / ?es ! i)"
      by blast
    have "l < i"
    proof (rule ccontr)
      assume "\<not> l < i"
      then have "i \<le> l" by simp
      with srt l(1) have "?es ! i \<le> ?es ! l" by (simp add: sorted_nth_mono)
      with l(2) show False by simp
    qed
    moreover have "i \<le> l + 1"
    proof (rule ccontr)
      assume "\<not> i \<le> l + 1"
      then have "l + 1 < i" by simp
      with strict i have "?es ! (l + 1) < ?es ! i"
        using sorted_wrt_nth_less [of "(<)" ?es "l + 1" i] by simp
      with l(3) show False by simp
    qed
    ultimately have "l = i - 1" by simp
    with l(4) show ?thesis by simp
  qed
  from part1 part2 show ?thesis by blast
qed

text \<open>
  The amended C3 at the table of the spec: at \<open>E = 3/2\<close>, strictly between the edges
  1 and 3, and at the interior edge of index 1, where \<open>xs(2) = 10/2\<close>.
\<close>

theorem xs_between_edges_witness:
  "sorted_wrt (<) (bragg_edges \<lparr>bragg_edges = [1, 2, 3], structure_factor_sum = [10, 20, 30]\<rparr>)
   \<and> length (structure_factor_sum \<lparr>bragg_edges = [1, 2, 3], structure_factor_sum = [10, 20, 30]\<rparr>)
       = length (bragg_edges \<lparr>bragg_edges = [1, 2, 3], structure_factor_sum = [10, 20, 30]\<rparr>)
   \<and> bragg_edges \<lparr>bragg_edges = [1, 2, 3], structure_factor_sum = [10, 20, 30]\<rparr> \<noteq> []
   \<and> hd (bragg_edges \<lparr>bragg_edges = [1, 2, 3], structure_factor_sum = [10, 20, 30]\<rparr>) < 3 / 2
   \<and> 3 / 2 < last (bragg_edges \<lparr>bragg_edges = [1, 2, 3], structure_factor_sum = [10, 20, 30]\<rparr>)
   \<and> (\<exists>l. l + 1 < length (bragg_edges \<lparr>bragg_edges = [1, 2, 3], structure_factor_sum = [10, 20, 30]\<rparr>)
         \<and> bragg_edges \<lparr>bragg_edges = [1, 2, 3], structure_factor_sum = [10, 20, 30]\<rparr> ! l < 3 / 2
         \<and> 3 / 2 \<le> bragg_edges \<lparr>bragg_edges = [1, 2, 3], structure_factor_sum = [10, 20, 30]\<rparr> ! (l + 1)
         \<and> STCoherentElastic_xs \<lparr>bragg_edges = [1, 2, 3], structure_factor_sum = [10, 20, 30]\<rparr> (3 / 2)
             = Inr (structure_factor_sum \<lparr>bragg_edges = [1, 2, 3], structure_factor_sum = [10, 20, 30]\<rparr> ! l
                    / (3 / 2)))
   \<and> (0 :: nat) < 1
   \<and> (1 :: nat) + 1 < length (bragg_edges \<lparr>bragg_edges = [1, 2, 3], structure_factor_sum = [10, 20, 30]\<rparr>)
   \<and> STCoherentElastic_xs \<lparr>bragg_edges = [1, 2, 3], structure_factor_sum = [10, 20, 30]\<rparr> 2 = Inr (10 / 2)"
proof -
  have h: "sorted_wrt (<)
             (bragg_edges \<lparr>bragg_edges = [1, 2, 3 :: real], structure_factor_sum = [10, 20, 30]\<rparr>)"
      "length (structure_factor_sum \<lparr>bragg_edges = [1, 2, 3], structure_factor_sum = [10, 20, 30]\<rparr>)
       = length (bragg_edges \<lparr>bragg_edges = [1, 2, 3], structure_factor_sum = [10, 20, 30]\<rparr>)"
      "bragg_edges \<lparr>bragg_edges = [1, 2, 3], structure_factor_sum = [10, 20, 30]\<rparr> \<noteq> []"
    by simp_all
  from xs_between_edges [OF h, of "3 / 2" 1] h show ?thesis
    by (simp only: simp_thms) (simp, blast)
qed

text \<open>
  C3 as stated fails at an interior edge. In the table of the spec \<open>E = 2\<close> is the edge
  of index 1, the greatest edge that is at most \<open>E\<close>; the search stops at that edge
  and \<open>xs\<close> steps back to index 0, so it divides \<open>structure_factor_sum[0] = 10\<close> by
  \<open>E\<close>, not \<open>structure_factor_sum[1] = 20\<close>.
\<close>

theorem xs_at_interior_edge_counterexample:
  "bragg_edges \<lparr>bragg_edges = [1, 2, 3], structure_factor_sum = [10, 20, 30]\<rparr> ! 1 = 2
   \<and> STCoherentElastic_xs \<lparr>bragg_edges = [1, 2, 3], structure_factor_sum = [10, 20, 30]\<rparr> 2 = Inr (structure_factor_sum \<lparr>bragg_edges = [1, 2, 3], structure_factor_sum = [10, 20, 30]\<rparr> ! 0 / 2)
   \<and> STCoherentElastic_xs \<lparr>bragg_edges = [1, 2, 3], structure_factor_sum = [10, 20, 30]\<rparr> 2 \<noteq> Inr (structure_factor_sum \<lparr>bragg_edges = [1, 2, 3], structure_factor_sum = [10, 20, 30]\<rparr> ! 1 / 2)"
  by (simp add: STCoherentElastic_xs_def lower_bound_def lower_bound_loop.simps vec_at_def)

subsection \<open>C4: the record layout read by the constructor\<close>

text \<open>
  C4 at a failing input. The record at offset 0 is laid out as C4 says: \<open>NR = 0\<close>,
  \<open>NE = 2\<close>, the energies 1, 2, the temperatures 3, 4, \<open>NX = 3\<close> and the bin bounds
  0, 1, 2. The constructor reads the single linear-linear region and both grids as
  stated, but reads the \<open>NX\<close> bin bounds from the offset of the count \<open>NX\<close> itself:
  the bounds it stores are 3, 0, 1, the count followed by all but the last bound.
\<close>

theorem GeneralEvaporation_init_reads_bins_at_count:
  "GeneralEvaporation_init interp_of [0, 2, 1, 2, 3, 4, 3, 0, 1, 2] 0
     = Inr \<lparr>temperature = Region1D [1, 2] [3, 4] LinLin, bin_bounds = [3, 0, 1]\<rparr>"
  by (simp add: GeneralEvaporation_init_def bind_err_def xss_uint32_def xss_def vec_at_def
        to_uint32_def)

subsection \<open>C5: the indices used by sample_energy\<close>

text \<open>
  C5 at a failing input. The bin bounds 0, 1, 2 are strictly increasing and the variates
  9/10 and 1/2 lie in \<open>[0, 1)\<close>. The selected bin is \<open>floor(3 * 9/10) = 2\<close>, and
  \<open>bin_bounds_[bin + 1]\<close> reads index 3 of a vector of length 3.
\<close>

theorem sample_energy_index_out_of_range:
  "GeneralEvaporation_sample_energy ev \<lparr>temperature = t, bin_bounds = [0, 1, 2]\<rparr> E_in
       (9 / 10 ## 1 / 2 ## rest)
     = (Inl IndexOutOfRange, rest)"
  by (simp add: GeneralEvaporation_sample_energy_def GeneralEvaporation_bin_def
        GeneralEvaporation_Chi_def bind_err_def vec_at_def)

subsection \<open>C6: the cross section of the example table\<close>

text \<open>
  C6. For the table with edges 1, 2, 3 and structure factors 10, 20, 30:
  \<open>xs(0.5) = 0\<close>, \<open>xs(1.5) = 10/1.5\<close> and \<open>xs(5) = 30/5\<close>; and with no Bragg edge
  \<open>xs(E) = 0\<close> for every \<open>E\<close>.
\<close>

theorem xs_table_values:
  "STCoherentElastic_xs \<lparr>bragg_edges = [1, 2, 3], structure_factor_sum = [10, 20, 30]\<rparr> 0.5 = Inr 0
   \<and> STCoherentElastic_xs \<lparr>bragg_edges = [1, 2, 3], structure_factor_sum = [10, 20, 30]\<rparr> 1.5 = Inr (10 / 1.5)
   \<and> STCoherentElastic_xs \<lparr>bragg_edges = [1, 2, 3], structure_factor_sum = [10, 20, 30]\<rparr> 5 = Inr (30 / 5)
   \<and> STCoherentElastic_xs \<lparr>bragg_edges = [], structure_factor_sum = sfs\<rparr> E = Inr 0"
  by (simp add: STCoherentElastic_xs_def lower_bound_def lower_bound_loop.simps vec_at_def
        vec_back_def)

subsection \<open>C7: the sampled cosine and energy of the example table\<close>

text \<open>
  C7. For the table with edges 1, 2, 3 and any random number source,
  \<open>sample_angle_energy\<close> gives the cosine 1 at \<open>E_in = 0.5\<close>, \<open>1 - 2/1.5\<close> at
  \<open>E_in = 1.5\<close> and \<open>1 - 6/5\<close> at \<open>E_in = 5\<close>. For every table with at least one edge
  and every \<open>E_in\<close> the outgoing energy is \<open>E_in\<close>; with no edge the result is the cosine
  1 and the energy 0. The random number source is never advanced.
\<close>

theorem sample_angle_energy_table_values:
  "STCoherentElastic_sample_angle_energy \<lparr>bragg_edges = [1, 2, 3], structure_factor_sum = [10, 20, 30]\<rparr> 0.5 rng
     = (Inr \<lparr>cosine_angle = 1, energy = 0.5\<rparr>, rng)
   \<and> STCoherentElastic_sample_angle_energy \<lparr>bragg_edges = [1, 2, 3], structure_factor_sum = [10, 20, 30]\<rparr> 1.5 rng
     = (Inr \<lparr>cosine_angle = 1 - 2 / 1.5, energy = 1.5\<rparr>, rng)
   \<and> STCoherentElastic_sample_angle_energy \<lparr>bragg_edges = [1, 2, 3], structure_factor_sum = [10, 20, 30]\<rparr> 5 rng
     = (Inr \<lparr>cosine_angle = 1 - 6 / 5, energy = 5\<rparr>, rng)
   \<and> (bragg_edges s \<noteq> [] \<longrightarrow>
        (\<exists>mu. STCoherentElastic_sample_angle_energy s E_in rng =
           (Inr \<lparr>cosine_angle = mu, energy = E_in\<rparr>, rng)))
   \<and> (bragg_edges s = [] \<longrightarrow>
        STCoherentElastic_sample_angle_energy s E_in rng =
           (Inr \<lparr>cosine_angle = 1, energy = 0\<rparr>, rng))"
proof (intro conjI impI)
  show "bragg_edges s \<noteq> [] \<Longrightarrow> \<exists>mu. STCoherentElastic_sample_angle_energy s E_in rng =
           (Inr \<lparr>cosine_angle = mu, energy = E_in\<rparr>, rng)"
    by (rule sample_angle_energy_nonempty)
qed (simp_all add: STCoherentElastic_sample_angle_energy_def lower_bound_def
       lower_bound_loop.simps vec_at_def)

text \<open>
  C7 at \<open>E_in = 2\<close>, once for the table of the spec and once for the table without
  edges.
\<close>

theorem sample_angle_energy_table_values_witness:
  "bragg_edges \<lparr>bragg_edges = [1, 2, 3], structure_factor_sum = [10, 20, 30]\<rparr> \<noteq> []
   \<and> (\<exists>mu. STCoherentElastic_sample_angle_energy \<lparr>bragg_edges = [1, 2, 3], structure_factor_sum = [10, 20, 30]\<rparr> 2 (sconst 0)
        = (Inr \<lparr>cosine_angle = mu, energy = 2\<rparr>, sconst 0))
   \<and> bragg_edges \<lparr>bragg_edges = [], structure_factor_sum = []\<rparr> = []
   \<and> STCoherentElastic_sample_angle_energy \<lparr>bragg_edges = [], structure_factor_sum = []\<rparr> 2
        (sconst 0)
        = (Inr \<lparr>cosine_angle = 1, energy = 0\<rparr>, sconst 0)"
  using sample_angle_energy_table_values [of "sconst 0" "\<lparr>bragg_edges = [1, 2, 3], structure_factor_sum = [10, 20, 30]\<rparr>" 2]
    sample_angle_energy_table_values
      [of "sconst 0" "\<lparr>bragg_edges = [], structure_factor_sum = []\<rparr>" 2]
  by simp

subsection \<open>C8: one draw of sample_energy\<close>

text \<open>
  C8. For every GeneralEvaporation with the bin bounds 0, 1, 2 and a temperature
  function with \<open>T(E_in) = 2\<close>, a call whose random number source yields 1/10 and then
  1/2 selects bin 0, computes \<open>Chi = 1/2\<close> and returns 1, leaving the source after its
  second variate. Every call, whatever the table, leaves the source after its second
  variate. The first variate selects the bin and the second is the position inside it:
  for every table, every temperature and every second variate \<open>xi2\<close>, a first variate
  1/2 selects the bin of index \<open>size div 2\<close> and a first variate 1/4 the bin of index
  \<open>size div 4\<close>, and the call returns
  \<open>((bin_bounds[bin + 1] - bin_bounds[bin]) * xi2 + bin_bounds[bin]) * T(E_in)\<close>, or
  reads outside the table when \<open>bin + 1\<close> is no index of it.
\<close>

theorem sample_energy_example:
  "(bin_bounds g = [0, 1, 2] \<and> ev (temperature g) E_in = 2 \<longrightarrow>
      GeneralEvaporation_bin (bin_bounds g) (1 / 10) = Inr 0
      \<and> GeneralEvaporation_Chi (bin_bounds g) 0 (1 / 2) = Inr (1 / 2)
      \<and> GeneralEvaporation_sample_energy ev g E_in (1 / 10 ## 1 / 2 ## rest) = (Inr 1, rest))
   \<and> snd (GeneralEvaporation_sample_energy ev g E_in rng) = stl (stl rng)
   \<and> GeneralEvaporation_sample_energy ev g E_in (1 / 2 ## xi2 ## rest) =
       (if length (bin_bounds g) div 2 + 1 < length (bin_bounds g)
        then Inr (((bin_bounds g ! (length (bin_bounds g) div 2 + 1)
                     - bin_bounds g ! (length (bin_bounds g) div 2)) * xi2
                   + bin_bounds g ! (length (bin_bounds g) div 2)) * ev (temperature g) E_in)
        else Inl IndexOutOfRange, rest)
   \<and> GeneralEvaporation_sample_energy ev g E_in (1 / 4 ## xi2 ## rest) =
       (if length (bin_bounds g) div 4 + 1 < length (bin_bounds g)
        then Inr (((bin_bounds g ! (length (bin_bounds g) div 4 + 1)
                     - bin_bounds g ! (length (bin_bounds g) div 4)) * xi2
                   + bin_bounds g ! (length (bin_bounds g) div 4)) * ev (temperature g) E_in)
        else Inl IndexOutOfRange, rest)"
proof (intro conjI impI)
  assume h: "bin_bounds g = [0, 1, 2] \<and> ev (temperature g) E_in = 2"
  then show b: "GeneralEvaporation_bin (bin_bounds g) (1 / 10) = Inr 0"
    by (simp add: GeneralEvaporation_bin_def)
  from h show c: "GeneralEvaporation_Chi (bin_bounds g) 0 (1 / 2) = Inr (1 / 2)"
    by (simp add: Chi_explicit)
  from h b c
  show "GeneralEvaporation_sample_energy ev g E_in (1 / 10 ## 1 / 2 ## rest) = (Inr 1, rest)"
    by (simp add: sample_energy_unfold bind_err_def)
next
  show "snd (GeneralEvaporation_sample_energy ev g E_in rng) = stl (stl rng)"
    by (simp add: sample_energy_unfold)
next
  show "GeneralEvaporation_sample_energy ev g E_in (1 / 2 ## xi2 ## rest) =
       (if length (bin_bounds g) div 2 + 1 < length (bin_bounds g)
        then Inr (((bin_bounds g ! (length (bin_bounds g) div 2 + 1)
                     - bin_bounds g ! (length (bin_bounds g) div 2)) * xi2
                   + bin_bounds g ! (length (bin_bounds g) div 2)) * ev (temperature g) E_in)
        else Inl IndexOutOfRange, rest)"
    by (cases "length (bin_bounds g) div 2 + 1 < length (bin_bounds g)")
       (simp_all add: sample_energy_unfold bin_at_half Chi_explicit bind_err_def)
next
  show "GeneralEvaporation_sample_energy ev g E_in (1 / 4 ## xi2 ## rest) =
       (if length (bin_bounds g) div 4 + 1 < length (bin_bounds g)
        then Inr (((bin_bounds g ! (length (bin_bounds g) div 4 + 1)
                     - bin_bounds g ! (length (bin_bounds g) div 4)) * xi2
                   + bin_bounds g ! (length (bin_bounds g) div 4)) * ev (temperature g) E_in)
        else Inl IndexOutOfRange, rest)"
    by (cases "length (bin_bounds g) div 4 + 1 < length (bin_bounds g)")
       (simp_all add: sample_energy_unfold bin_at_quarter Chi_explicit bind_err_def)
qed

text \<open>
  C8 for a constant temperature 2 at the incident energy 5: the variates of the claim,
  then 1/2 followed by 1/4 (bin 1, \<open>Chi = 5/4\<close>, result 5/2) and the same two in the
  other order (bin 0, \<open>Chi = 1/2\<close>, result 1).
\<close>

theorem sample_energy_example_witness:
  "bin_bounds \<lparr>temperature = Region1D [0, 10] [2, 2] LinLin, bin_bounds = [0, 1, 2]\<rparr> = [0, 1, 2]
   \<and> (\<lambda>t E. 2 :: real) (temperature \<lparr>temperature = Region1D [0, 10] [2, 2] LinLin, bin_bounds = [0, 1, 2]\<rparr>) 5 = 2
   \<and> GeneralEvaporation_sample_energy (\<lambda>t E. 2) \<lparr>temperature = Region1D [0, 10] [2, 2] LinLin, bin_bounds = [0, 1, 2]\<rparr> 5 (1 / 10 ## 1 / 2 ## sconst 0)
       = (Inr 1, sconst 0)
   \<and> GeneralEvaporation_sample_energy (\<lambda>t E. 2) \<lparr>temperature = Region1D [0, 10] [2, 2] LinLin, bin_bounds = [0, 1, 2]\<rparr> 5 (1 / 2 ## 1 / 4 ## sconst 0)
       = (Inr (5 / 2), sconst 0)
   \<and> GeneralEvaporation_sample_energy (\<lambda>t E. 2) \<lparr>temperature = Region1D [0, 10] [2, 2] LinLin, bin_bounds = [0, 1, 2]\<rparr> 5 (1 / 4 ## 1 / 2 ## sconst 0)
       = (Inr 1, sconst 0)"
  using sample_energy_example [of "\<lparr>temperature = Region1D [0, 10] [2, 2] LinLin, bin_bounds = [0, 1, 2]\<rparr>" "\<lambda>t E. 2" 5 "sconst 0" "sconst 0" "1 / 4"]
    sample_energy_example [of "\<lparr>temperature = Region1D [0, 10] [2, 2] LinLin, bin_bounds = [0, 1, 2]\<rparr>" "\<lambda>t E. 2" 5 "sconst 0" "sconst 0" "1 / 2"]
  by simp

subsection \<open>C9: no densities\<close>

text \<open>
  C9. For every STCoherentElastic and all arguments, \<open>angle_pdf\<close> and \<open>pdf\<close> return
  the empty optional.
\<close>

theorem pdfs_unavailable:
  "STCoherentElastic_angle_pdf s E_in mu = None \<and> STCoherentElastic_pdf s E_in mu E_out = None"
  by (simp add: STCoherentElastic_angle_pdf_def STCoherentElastic_pdf_def)

subsection \<open>C10: the sampled energy as a factor times the temperature\<close>




end
